theory Spec2Isabelle
  imports Main "HOL-Library.Word" "HOL-Library.Multiset"
begin

section \<open>Symbols and the symbol table (symbol-table.hh)\<close>

type_synonym uint32 = "32 word"

text \<open>
  How an operation ends when it does not return: \<open>abort()\<close> terminates the process,
  \<open>throw Error(fmt, arg)\<close> raises a catchable evaluation error that carries the format
  string and its argument.
\<close>

datatype failure = Abort | Error string nat

text \<open>\<open>class Symbol\<close>: a 32-bit identifier; the default constructor gives id 0.\<close>

datatype Symbol = Symbol (id: uint32)

definition Symbol_default :: Symbol where
  "Symbol_default = Symbol 0"

definition Symbol_bool :: "Symbol \<Rightarrow> bool" where
  "Symbol_bool s = (id s > 0)"

definition Symbol_less :: "Symbol \<Rightarrow> Symbol \<Rightarrow> bool" where
  "Symbol_less s other = (id s < id other)"

definition Symbol_eq :: "Symbol \<Rightarrow> Symbol \<Rightarrow> bool" where
  "Symbol_eq s other = (id s = id other)"

text \<open>
  \<open>class SymbolStr\<close>: a pointer to a string owned by the table's store. The store is
  append-only and never moves or changes an entry, so the view is modelled by the text
  it points to.
\<close>

datatype SymbolStr = SymbolStr (str: string)

subsection \<open>The backing store\<close>

text \<open>
  Modelled from the spec: \<open>ChunkedVector<std::string, 8192>\<close> (chunked-vector.hh is not
  among the sources). The spec describes it as an append-only, stable-address sequence
  of owned strings. It is a list of strings; the address of an entry is its position,
  which never changes. \<open>add\<close> appends and returns the new entry's address together with
  its index as a \<open>uint32_t\<close>; \<open>size\<close> is the number of entries.
\<close>

type_synonym ChunkedVector = "string list"

definition cv_add :: "ChunkedVector \<Rightarrow> string \<Rightarrow> (nat \<times> uint32) \<times> ChunkedVector" where
  "cv_add st v = ((length st, of_nat (length st)), st @ [v])"

definition cv_size :: "ChunkedVector \<Rightarrow> nat" where
  "cv_size st = length st"

definition cv_get :: "ChunkedVector \<Rightarrow> uint32 \<Rightarrow> string" where
  "cv_get st idx = st ! unat idx"

subsection \<open>MinimalSymbolTable\<close>

text \<open>
  \<open>symbols\<close> is the \<open>unordered_map\<close> from a text to the pair (address of the stored
  string, index); its key is a view of the stored string and is modelled by that text.
  \<open>emplace\<close> leaves the map as it is when the key is present.
\<close>

record MinimalSymbolTable =
  symbols :: "string \<rightharpoonup> (nat \<times> uint32)"
  store :: ChunkedVector

definition emplace :: "('k \<rightharpoonup> 'v) \<Rightarrow> 'k \<Rightarrow> 'v \<Rightarrow> ('k \<rightharpoonup> 'v)" where
  "emplace m k v = (case m k of None \<Rightarrow> m(k \<mapsto> v) | Some _ \<Rightarrow> m)"

definition MinimalSymbolTable_new :: MinimalSymbolTable where
  "MinimalSymbolTable_new = \<lparr>symbols = Map.empty, store = []\<rparr>"

definition insert_sym ::
  "'a MinimalSymbolTable_scheme \<Rightarrow> string \<Rightarrow> Symbol \<times> 'a MinimalSymbolTable_scheme" where
  "insert_sym t s =
     (case cv_add (store t) s of
        ((rawSym, idx), store') \<Rightarrow>
          (Symbol (idx + 1),
           t\<lparr>symbols := emplace (symbols t) (store' ! rawSym) (rawSym, idx), store := store'\<rparr>))"

definition create ::
  "'a MinimalSymbolTable_scheme \<Rightarrow> string \<Rightarrow> Symbol \<times> 'a MinimalSymbolTable_scheme" where
  "create t s =
     (case symbols t s of
        Some it \<Rightarrow> (Symbol (snd it + 1), t)
      | None \<Rightarrow> insert_sym t s)"

text \<open>\<open>operator[]\<close>: aborts on identifier 0 and on an identifier beyond the store's size.\<close>

definition subscript :: "'a MinimalSymbolTable_scheme \<Rightarrow> Symbol \<Rightarrow> failure + SymbolStr" where
  "subscript t s =
     (if id s = 0 \<or> unat (id s) > cv_size (store t) then Inl Abort
      else Inr (SymbolStr (cv_get (store t) (id s - 1))))"

text \<open>
  The batch \<open>resolve\<close>: the loop pushes \<open>(*this)[sym]\<close> for each symbol in turn; the
  first abort ends it.
\<close>

fun resolve_loop ::
  "'a MinimalSymbolTable_scheme \<Rightarrow> Symbol list \<Rightarrow> SymbolStr list \<Rightarrow> failure + SymbolStr list" where
  "resolve_loop t [] result = Inr result"
| "resolve_loop t (s # ss) result =
     (case subscript t s of
        Inl e \<Rightarrow> Inl e
      | Inr v \<Rightarrow> resolve_loop t ss (result @ [v]))"

definition resolve :: "'a MinimalSymbolTable_scheme \<Rightarrow> Symbol list \<Rightarrow> failure + SymbolStr list" where
  "resolve t ss = resolve_loop t ss []"

definition size_tbl :: "'a MinimalSymbolTable_scheme \<Rightarrow> nat" where
  "size_tbl t = cv_size (store t)"

subsection \<open>SymbolTable: the table with the common symbols\<close>

text \<open>
  \<open>struct SymbolTable : public MinimalSymbolTable\<close> adds 75 constant \<open>Symbol\<close> members.
  They are kept as the list of (member name, symbol) pairs in declaration order, which
  is also the order in which the constructor initialises them. \<open>member_inits\<close> is the
  constructor's initialiser list: the member and the text it passes to \<open>insert\<close>.
\<close>

record SymbolTable = MinimalSymbolTable +
  members :: "(string \<times> Symbol) list"

definition member_inits :: "(string \<times> string) list" where
  "member_inits =
    [(''__contentAddressed'', ''__contentAddressed''), (''__functor'', ''__functor''),
     (''__ignoreNulls'', ''__ignoreNulls''), (''__impure'', ''__impure''),
     (''__operators'', ''__operators''), (''__overrides'', ''__overrides''),
     (''__structuredAttrs'', ''__structuredAttrs''), (''__toString'', ''__toString''),
     (''_combineChannels'', ''_combineChannels''), (''_type'', ''_type''), (''add'', ''add''),
     (''allOutputs'', ''allOutputs''), (''args'', ''args''), (''body'', ''body''),
     (''builder'', ''builder''), (''column'', ''column''), (''concat'', ''concat''),
     (''derivation'', ''derivation''), (''derivations'', ''derivations''),
     (''description'', ''description''), (''divide'', ''divide''), (''drvPath'', ''drvPath''),
     (''epsilon'', ''''), (''equal'', ''equal''), (''file'', ''file''), (''flake'', ''flake''),
     (''follows'', ''follows''), (''has'', ''has''), (''hydraJobs'', ''hydraJobs''),
     (''inputs'', ''inputs''), (''imply'', ''imply''), (''import'', ''import''),
     (''key'', ''key''), (''lessThan'', ''lessThan''), (''line'', ''line''),
     (''logicAnd'', ''logicOr''), (''logicNot'', ''logicNot''), (''logicOr'', ''logicAnd''),
     (''mainProgram'', ''mainProgram''), (''meta'', ''meta''), (''multiply'', ''multiply''),
     (''name'', ''name''), (''negate'', ''negate''), (''nixConfig'', ''nixConfig''),
     (''nixPath'', ''nixPath''), (''operator_'', ''operator''), (''or_'', ''or''),
     (''outPath'', ''outPath''), (''outputHash'', ''outputHash''),
     (''outputHashAlgo'', ''outputHashAlgo''), (''outputHashMode'', ''outputHashMode''),
     (''outputName'', ''outputName''), (''outputSpecified'', ''outputSpecified''),
     (''outputs'', ''outputs''), (''outputsToInstall'', ''outputsToInstall''),
     (''path'', ''path''), (''pname'', ''pname''), (''prefix'', ''prefix''),
     (''priority'', ''priority''), (''readFileType'', ''readFileType''),
     (''recurseForDerivations'', ''recurseForDerivations''), (''resolvePath'', ''resolvePath''),
     (''right'', ''right''), (''self'', ''self''), (''startSet'', ''startSet''),
     (''subtract'', ''subtract''), (''system'', ''system''), (''type'', ''type''),
     (''update'', ''update''), (''url'', ''url''), (''urls'', ''urls''), (''value'', ''value''),
     (''welcomeText'', ''welcomeText''), (''with'', ''<with>''), (''wrong'', ''wrong'')]"

fun init_members :: "SymbolTable \<Rightarrow> (string \<times> string) list \<Rightarrow> SymbolTable" where
  "init_members t [] = t"
| "init_members t ((m, text) # rest) =
     (case insert_sym t text of
        (a, t') \<Rightarrow> init_members (t'\<lparr>members := members t' @ [(m, a)]\<rparr>) rest)"

definition SymbolTable_new :: SymbolTable where
  "SymbolTable_new = init_members \<lparr>symbols = Map.empty, store = [], members = []\<rparr> member_inits"

definition member :: "SymbolTable \<Rightarrow> string \<Rightarrow> Symbol option" where
  "member t m = map_of (members t) m"

subsection \<open>Well-formed tables and sequences of calls\<close>

text \<open>
  The states \<open>create\<close> produces: the store holds each text once, the map holds exactly
  the stored texts, each with its address and index, and every index plus one fits the
  32-bit identifier. \<open>has_room\<close> says that one more entry still does.
\<close>

definition table_inv :: "'a MinimalSymbolTable_scheme \<Rightarrow> bool" where
  "table_inv t \<longleftrightarrow>
     distinct (store t) \<and> length (store t) < 2 ^ 32 \<and>
     dom (symbols t) = set (store t) \<and>
     (\<forall>i < length (store t). symbols t (store t ! i) = Some (i, of_nat i))"

definition has_room :: "'a MinimalSymbolTable_scheme \<Rightarrow> bool" where
  "has_room t \<longleftrightarrow> length (store t) + 1 < 2 ^ 32"

definition valid_symbol :: "'a MinimalSymbolTable_scheme \<Rightarrow> Symbol \<Rightarrow> bool" where
  "valid_symbol t a \<longleftrightarrow> id a \<noteq> 0 \<and> unat (id a) \<le> size_tbl t"

text \<open>The table after a sequence of calls of \<open>create\<close>.\<close>

fun creates :: "'a MinimalSymbolTable_scheme \<Rightarrow> string list \<Rightarrow> 'a MinimalSymbolTable_scheme" where
  "creates t [] = t"
| "creates t (s # ss) = creates (snd (create t s)) ss"

section \<open>Attribute records (attr-set.cc)\<close>

type_synonym size_t = "64 word"

text \<open>
  Modelled from the spec: \<open>PosIdx\<close>, \<open>Value\<close>, \<open>Attr\<close>, \<open>Bindings\<close> and \<open>BindingsBuilder\<close>
  are declared in headers that are not among the sources (nixexpr.hh, value.hh,
  attr-set.hh). A position is an informational tag. A value cell is referred to by its
  address; a fresh cell is uninitialised. An attribute is the triple (symbol, value,
  position), ordered by its symbol's identifier alone.
\<close>

datatype PosIdx = PosIdx nat

definition noPos :: PosIdx where
  "noPos = PosIdx 0"

datatype Value = tUninitialized

type_synonym ValuePtr = nat

datatype Attr = Attr (name: Symbol) (value_cell: ValuePtr) (pos: PosIdx)

definition Attr_less :: "Attr \<Rightarrow> Attr \<Rightarrow> bool" where
  "Attr_less a b = Symbol_less (name a) (name b)"

text \<open>
  Modelled from the spec: an attribute record has a capacity fixed at construction and
  the attributes appended so far. \<open>attrs\<close> holds the slots from \<open>begin()\<close> to \<open>end()\<close>,
  that is the first \<open>size_\<close> ones; the slots beyond are uninitialised. The members
  \<open>size_\<close> and \<open>capacity_\<close> are \<open>size_b\<close> and \<open>capacity_b\<close> here, an attribute's \<open>value\<close>
  is \<open>value_cell\<close>.
\<close>

record Bindings =
  capacity_b :: nat
  attrs :: "Attr list"

definition size_b :: "Bindings \<Rightarrow> nat" where
  "size_b b = length (attrs b)"

definition Bindings_new :: "nat \<Rightarrow> Bindings" where
  "Bindings_new capacity = \<lparr>capacity_b = capacity, attrs = []\<rparr>"

text \<open>
  Modelled from the spec: \<open>push_back\<close> puts the attribute in the next free slot;
  appending beyond the capacity is a fatal contract violation.
\<close>

definition push_back :: "Bindings \<Rightarrow> Attr \<Rightarrow> failure + Bindings" where
  "push_back b attr =
     (if size_b b < capacity_b b then Inr (b\<lparr>attrs := attrs b @ [attr]\<rparr>) else Inl Abort)"

text \<open>
  \<open>std::sort(begin(), end())\<close> orders the slots by \<open>Attr_less\<close>. The standard leaves the
  order of elements with equal keys open; the model is the insertion sort on the
  identifier. With pairwise distinct identifiers every sorting algorithm gives this
  result.
\<close>

definition std_sort :: "Attr list \<Rightarrow> Attr list" where
  "std_sort xs = sort_key (\<lambda>a. id (name a)) xs"

definition Bindings_sort :: "Bindings \<Rightarrow> Bindings" where
  "Bindings_sort b = (if size_b b \<noteq> 0 then b\<lparr>attrs := std_sort (attrs b)\<rparr> else b)"

subsection \<open>The evaluator state and allocation\<close>

text \<open>
  A pointer to an attribute record: the address of the evaluator's own member
  \<open>emptyBindings\<close>, or the address of a record on the heap.
\<close>

datatype BindingsPtr = emptyBindingsPtr | heapPtr nat

text \<open>
  Modelled from the spec: \<open>EvalState\<close> (eval.hh is not among the sources) as far as this
  code uses it: the symbol table, the shared empty record, the two profiling counters
  (unsigned machine integers, here of the width of \<open>size_t\<close>), and the memory handed out
  by the allocation facility: the attribute records and the value cells, each at the
  address of its position. The allocation facility is infallible.
\<close>

record 'a EvalState =
  state_symbols :: "'a MinimalSymbolTable_scheme"
  emptyBindings :: Bindings
  nrAttrsets :: size_t
  nrAttrsInAttrsets :: size_t
  bindings_heap :: "Bindings list"
  values_heap :: "Value list"

definition EvalState_new :: "'a MinimalSymbolTable_scheme \<Rightarrow> 'a EvalState" where
  "EvalState_new tbl =
     \<lparr>state_symbols = tbl, emptyBindings = Bindings_new 0, nrAttrsets = 0,
      nrAttrsInAttrsets = 0, bindings_heap = [], values_heap = []\<rparr>"

definition deref :: "'a EvalState \<Rightarrow> BindingsPtr \<Rightarrow> Bindings option" where
  "deref state p =
     (case p of
        emptyBindingsPtr \<Rightarrow> Some (emptyBindings state)
      | heapPtr a \<Rightarrow> (if a < length (bindings_heap state) then Some (bindings_heap state ! a) else None))"

definition assign :: "'a EvalState \<Rightarrow> BindingsPtr \<Rightarrow> Bindings \<Rightarrow> 'a EvalState" where
  "assign state p b =
     (case p of
        emptyBindingsPtr \<Rightarrow> state\<lparr>emptyBindings := b\<rparr>
      | heapPtr a \<Rightarrow> state\<lparr>bindings_heap := (bindings_heap state)[a := b]\<rparr>)"

text \<open>
  \<open>new (allocBytes(...)) Bindings(capacity)\<close>: fresh storage holding a record constructed
  with that capacity and no attribute.
\<close>

definition allocBytes_Bindings :: "'a EvalState \<Rightarrow> nat \<Rightarrow> BindingsPtr \<times> 'a EvalState" where
  "allocBytes_Bindings state capacity =
     (heapPtr (length (bindings_heap state)),
      state\<lparr>bindings_heap := bindings_heap state @ [Bindings_new capacity]\<rparr>)"

text \<open>
  Modelled from the spec: \<open>allocValue\<close> (eval-inline.hh is not among the sources) hands
  out one fresh, uninitialised value cell.
\<close>

definition allocValue :: "'a EvalState \<Rightarrow> ValuePtr \<times> 'a EvalState" where
  "allocValue state =
     (length (values_heap state), state\<lparr>values_heap := values_heap state @ [tUninitialized]\<rparr>)"

text \<open>
  \<open>EvalState::allocBindings\<close>. The largest value of \<open>Bindings::size_t\<close> (declared in
  attr-set.hh) is the parameter \<open>size_max\<close>. The result is paired with the state the
  call leaves behind, also when it throws. Below the maximum the cast to
  \<open>Bindings::size_t\<close> keeps the value.
\<close>

definition allocBindings ::
  "nat \<Rightarrow> 'a EvalState \<Rightarrow> size_t \<Rightarrow> (failure + BindingsPtr) \<times> 'a EvalState" where
  "allocBindings size_max state capacity =
     (if capacity = 0 then (Inr emptyBindingsPtr, state)
      else if unat capacity > size_max
        then (Inl (Error ''attribute set of size %d is too big'' (unat capacity)), state)
      else
        (let state1 = state\<lparr>nrAttrsets := nrAttrsets state + 1\<rparr>;
             state2 = state1\<lparr>nrAttrsInAttrsets := nrAttrsInAttrsets state1 + capacity\<rparr>
         in case allocBytes_Bindings state2 (unat capacity) of
              (p, state3) \<Rightarrow> (Inr p, state3)))"

subsection \<open>BindingsBuilder\<close>

record BindingsBuilder =
  bindings :: BindingsPtr

text \<open>
  Modelled from the spec: \<open>open(capacity)\<close>, which is \<open>EvalState::buildBindings\<close>,
  allocates a record of that capacity for the builder.
\<close>

definition buildBindings ::
  "nat \<Rightarrow> 'a EvalState \<Rightarrow> size_t \<Rightarrow> (failure + BindingsBuilder) \<times> 'a EvalState" where
  "buildBindings size_max state capacity =
     (case allocBindings size_max state capacity of
        (Inl e, state1) \<Rightarrow> (Inl e, state1)
      | (Inr p, state1) \<Rightarrow> (Inr \<lparr>bindings = p\<rparr>, state1))"

text \<open>
  \<open>BindingsBuilder::alloc(Symbol name, PosIdx pos)\<close>: a fresh value cell, then
  \<open>bindings->push_back(Attr(name, value, pos))\<close>. The builder's pointer always refers to
  a record; a pointer to no record counts as fatal.
\<close>

definition alloc ::
  "BindingsBuilder \<Rightarrow> 'a EvalState \<Rightarrow> Symbol \<Rightarrow> PosIdx \<Rightarrow> (failure + ValuePtr) \<times> 'a EvalState" where
  "alloc bb state nm ps =
     (case allocValue state of
        (v, state1) \<Rightarrow>
          (case deref state1 (bindings bb) of
             None \<Rightarrow> (Inl Abort, state1)
           | Some b \<Rightarrow>
               (case push_back b (Attr nm v ps) of
                  Inl e \<Rightarrow> (Inl e, state1)
                | Inr b' \<Rightarrow> (Inr v, assign state1 (bindings bb) b'))))"

text \<open>\<open>BindingsBuilder::alloc(std::string_view name, PosIdx pos)\<close>.\<close>

definition alloc_name ::
  "BindingsBuilder \<Rightarrow> 'a EvalState \<Rightarrow> string \<Rightarrow> PosIdx \<Rightarrow> (failure + ValuePtr) \<times> 'a EvalState" where
  "alloc_name bb state nm ps =
     (case create (state_symbols state) nm of
        (a, tbl) \<Rightarrow> alloc bb (state\<lparr>state_symbols := tbl\<rparr>) a ps)"

text \<open>
  Modelled from the spec: \<open>finish()\<close> sorts the builder's record and returns it.
\<close>

definition finish :: "BindingsBuilder \<Rightarrow> 'a EvalState \<Rightarrow> (failure + BindingsPtr) \<times> 'a EvalState" where
  "finish bb state =
     (case deref state (bindings bb) of
        None \<Rightarrow> (Inl Abort, state)
      | Some b \<Rightarrow> (Inr (bindings bb), assign state (bindings bb) (Bindings_sort b)))"

section \<open>Properties of the symbol table\<close>

text \<open>
  The fresh table is well formed, and \<open>create\<close> keeps a table well formed as long as
  the next identifier fits 32 bits. So every table that calls of \<open>create\<close> build from
  the fresh one is covered by the theorems below.
\<close>

lemma table_inv_new: "table_inv MinimalSymbolTable_new"
  by (simp add: table_inv_def MinimalSymbolTable_new_def)

lemma create_found:
  "symbols t s = Some (p, i) \<Longrightarrow> create t s = (Symbol (i + 1), t)"
  by (simp add: create_def)

lemma create_fresh:
  "symbols t s = None \<Longrightarrow>
   create t s =
     (Symbol (of_nat (length (store t)) + 1),
      t\<lparr>symbols := (symbols t)(s \<mapsto> (length (store t), of_nat (length (store t)))),
        store := store t @ [s]\<rparr>)"
  by (simp add: create_def insert_sym_def cv_add_def emplace_def)

lemma inv_lookup:
  assumes "table_inv t" "symbols t s = Some (p, i)"
  shows "p < length (store t) \<and> store t ! p = s \<and> i = of_nat p"
proof -
  from assms have "s \<in> set (store t)" by (auto simp: table_inv_def)
  then obtain j where j: "j < length (store t)" "store t ! j = s"
    by (auto simp: in_set_conv_nth)
  with assms have "symbols t s = Some (j, of_nat j)" by (auto simp: table_inv_def)
  with assms j show ?thesis by auto
qed

lemma inv_absent:
  "table_inv t \<Longrightarrow> symbols t s = None \<longleftrightarrow> s \<notin> set (store t)"
  by (auto simp: table_inv_def)

lemma create_inv:
  assumes "table_inv t" "has_room t"
  shows "table_inv (snd (create t s))"
proof (cases "symbols t s")
  case None
  with assms(1) have notin: "s \<notin> set (store t)" by (simp add: inv_absent)
  have "\<forall>i < length (store t @ [s]).
          ((symbols t)(s \<mapsto> (length (store t), of_nat (length (store t))))) ((store t @ [s]) ! i)
            = Some (i, of_nat i)"
    using assms(1) notin by (auto simp: table_inv_def nth_append less_Suc_eq)
  with assms notin None show ?thesis
    by (simp add: create_fresh table_inv_def has_room_def)
next
  case (Some a)
  with assms show ?thesis by (cases a) (simp add: create_found)
qed

lemma word_succ_nonzero:
  assumes "p + 1 < 2 ^ 32"
  shows "(of_nat p + 1 :: uint32) \<noteq> 0" and "unat (of_nat p + 1 :: uint32) = p + 1"
proof -
  show u: "unat (of_nat p + 1 :: uint32) = p + 1"
    using assms by (simp add: unat_word_ariths unat_of_nat)
  show "(of_nat p + 1 :: uint32) \<noteq> 0"
  proof
    assume "(of_nat p + 1 :: uint32) = 0"
    with u show False by simp
  qed
qed

lemma create_nonzero:
  assumes "table_inv t" "has_room t"
  shows "id (fst (create t s)) \<noteq> 0"
proof (cases "symbols t s")
  case None
  from assms(2) have "length (store t) + 1 < 2 ^ 32" by (simp add: has_room_def)
  then have "(of_nat (length (store t)) + 1 :: uint32) \<noteq> 0" by (rule word_succ_nonzero)
  with None show ?thesis by (simp add: create_fresh)
next
  case (Some x)
  obtain p i where x: "x = (p, i)" by (cases x)
  with assms Some have p: "p < length (store t)" "i = of_nat p" by (auto dest: inv_lookup)
  from assms(1) p have "p + 1 < 2 ^ 32" by (simp add: table_inv_def)
  then have "(of_nat p + 1 :: uint32) \<noteq> 0" by (rule word_succ_nonzero)
  with Some x p show ?thesis by (simp add: create_found)
qed

lemma create_symbols:
  assumes "create t s = (a, t1)"
  shows "\<exists>p i. symbols t1 s = Some (p, i) \<and> a = Symbol (i + 1)"
proof (cases "symbols t s")
  case None
  with assms show ?thesis by (auto simp: create_fresh)
next
  case (Some x)
  with assms show ?thesis by (cases x) (auto simp: create_found)
qed

lemma subscript_valid:
  assumes "p < length (store t)" "p + 1 < 2 ^ 32"
  shows "subscript t (Symbol (of_nat p + 1)) = Inr (SymbolStr (store t ! p))"
proof -
  have "(of_nat p + 1 :: uint32) - 1 = of_nat p" by simp
  moreover have "unat (of_nat p :: uint32) = p"
    using assms(2) by (simp add: unat_of_nat)
  ultimately show ?thesis
    using assms word_succ_nonzero [OF assms(2)]
    by (simp add: subscript_def cv_size_def cv_get_def)
qed

lemma create_resolves:
  assumes "table_inv t" "has_room t" "create t s = (a, t1)"
  shows "subscript t1 a = Inr (SymbolStr s)"
proof -
  from assms have inv1: "table_inv t1" using create_inv [of t s] by simp
  from assms(3) obtain p i where pi: "symbols t1 s = Some (p, i)" "a = Symbol (i + 1)"
    using create_symbols by blast
  from inv_lookup [OF inv1 pi(1)]
  have p: "p < length (store t1)" "store t1 ! p = s" "i = of_nat p" by simp_all
  from inv1 p(1) have "p + 1 < 2 ^ 32" by (simp add: table_inv_def)
  with p pi show ?thesis by (simp add: subscript_valid)
qed

lemma store_create:
  "store (snd (create t s)) = store t \<or> store (snd (create t s)) = store t @ [s]"
  by (cases "symbols t s") (auto simp: create_fresh create_found)

lemma subscript_stable:
  assumes "subscript t a = Inr v"
  shows "subscript (snd (create t s)) a = Inr v"
proof -
  from assms have ok: "id a \<noteq> 0" "unat (id a) \<le> length (store t)"
    by (auto simp: subscript_def cv_size_def split: if_splits)
  then have "unat (id a - 1) < length (store t)"
    by (metis One_nat_def unat_minus_one unat_gt_0 diff_Suc_less less_le_trans)
  with ok assms store_create [of t s] show ?thesis
    by (auto simp: subscript_def cv_size_def cv_get_def nth_append)
qed

lemma subscript_creates:
  "subscript t a = Inr v \<Longrightarrow> subscript (creates t ss) a = Inr v"
  by (induction ss arbitrary: t) (simp_all add: subscript_stable)

lemma has_room_new: "has_room MinimalSymbolTable_new"
  by (simp add: has_room_def MinimalSymbolTable_new_def)

lemma create_new:
  "create MinimalSymbolTable_new s =
     (Symbol 1, \<lparr>symbols = [s \<mapsto> (0, 0)], store = [s]\<rparr>)"
  by (simp add: create_fresh MinimalSymbolTable_new_def)

text \<open>
  Claim C1. Calling \<open>create\<close> with the same text a second time returns the same
  identifier and leaves the table as the first call left it, so no entry is added; this
  holds in every table state. In a well-formed table with room for one more entry the
  identifier is not zero.
\<close>

theorem create_idempotent:
  assumes "create t s = (a, t1)"
  shows "create t1 s = (a, t1) \<and> (table_inv t \<and> has_room t \<longrightarrow> id a \<noteq> 0 \<and> Symbol_bool a)"
proof -
  from assms obtain p i where "symbols t1 s = Some (p, i)" "a = Symbol (i + 1)"
    using create_symbols by blast
  then have same: "create t1 s = (a, t1)" by (simp add: create_found)
  have "id a \<noteq> 0 \<and> Symbol_bool a" if "table_inv t" "has_room t"
  proof -
    from that have "id (fst (create t s)) \<noteq> 0" by (rule create_nonzero)
    with assms show ?thesis by (simp add: Symbol_bool_def word_greater_zero_iff)
  qed
  with same show ?thesis by blast
qed

theorem create_idempotent_witness:
  "create MinimalSymbolTable_new ''foo'' = (Symbol 1, \<lparr>symbols = [''foo'' \<mapsto> (0, 0)], store = [''foo'']\<rparr>)
   \<and> create \<lparr>symbols = [''foo'' \<mapsto> (0, 0)], store = [''foo'']\<rparr> ''foo''
       = (Symbol 1, \<lparr>symbols = [''foo'' \<mapsto> (0, 0)], store = [''foo'']\<rparr>)
   \<and> table_inv MinimalSymbolTable_new \<and> has_room MinimalSymbolTable_new
   \<and> id (Symbol 1) \<noteq> 0 \<and> Symbol_bool (Symbol 1)"
  using create_idempotent [OF create_new [of "''foo''"]] create_new [of "''foo''"]
    table_inv_new has_room_new
  by simp

text \<open>
  Claim C2. In a well-formed table with room for one more entry, resolving the symbol
  that \<open>create\<close> returns for a text gives that text, for every text, the empty one
  included.
\<close>

theorem resolve_create_roundtrip:
  assumes "table_inv t" "has_room t" "create t s = (a, t1)"
  shows "subscript t1 a = Inr (SymbolStr s)"
  using assms by (rule create_resolves)

theorem resolve_create_roundtrip_witness:
  "table_inv MinimalSymbolTable_new \<and> has_room MinimalSymbolTable_new
   \<and> create MinimalSymbolTable_new [] = (Symbol 1, \<lparr>symbols = [[] \<mapsto> (0, 0)], store = [[]]\<rparr>)
   \<and> subscript \<lparr>symbols = [[] \<mapsto> (0, 0)], store = [[]]\<rparr> (Symbol 1) = Inr (SymbolStr [])"
  using resolve_create_roundtrip [OF table_inv_new has_room_new create_new [of "[]"]]
    create_new [of "[]"] table_inv_new has_room_new
  by simp

text \<open>
  Claim C3. In a well-formed table with room for two more entries, \<open>create\<close> called for
  two different texts, one call after the other, returns two different identifiers.
\<close>

theorem create_injective:
  assumes "table_inv t" "length (store t) + 2 < 2 ^ 32" "s1 \<noteq> s2"
    and "create t s1 = (a, t1)" "create t1 s2 = (b, t2)"
  shows "a \<noteq> b"
proof
  assume eq: "a = b"
  from assms(2) have room: "has_room t" by (simp add: has_room_def)
  with assms have inv1: "table_inv t1" using create_inv [of t s1] by simp
  from store_create [of t s1] assms(2,4) have room1: "has_room t1"
    by (auto simp: has_room_def)
  from assms(1) room assms(4) have "subscript t1 a = Inr (SymbolStr s1)"
    by (rule create_resolves)
  then have "subscript (snd (create t1 s2)) a = Inr (SymbolStr s1)"
    by (rule subscript_stable)
  moreover from inv1 room1 assms(5) have "subscript t2 b = Inr (SymbolStr s2)"
    by (rule create_resolves)
  ultimately show False using eq assms(3,5) by simp
qed

lemma length_store_create: "length (store (snd (create t s))) \<le> length (store t) + 1"
  using store_create [of t s] by auto

lemma creates_inv:
  "table_inv t \<Longrightarrow> length (store t) + length ss < 2 ^ 32 \<Longrightarrow> table_inv (creates t ss)"
proof (induction ss arbitrary: t)
  case Nil
  then show ?case by simp
next
  case (Cons s ss)
  from Cons.prems have "has_room t" by (simp add: has_room_def)
  with Cons.prems have "table_inv (snd (create t s))" by (simp add: create_inv)
  moreover from Cons.prems length_store_create [of t s]
  have "length (store (snd (create t s))) + length ss < 2 ^ 32" by simp
  ultimately show ?case using Cons.IH by simp
qed

lemma create_foo_bar:
  "create \<lparr>symbols = [''foo'' \<mapsto> (0, 0)], store = [''foo'']\<rparr> ''bar''
     = (Symbol 2, \<lparr>symbols = [''foo'' \<mapsto> (0, 0), ''bar'' \<mapsto> (1, 1)], store = [''foo'', ''bar'']\<rparr>)"
  by (simp add: create_fresh)

theorem create_injective_witness:
  "table_inv MinimalSymbolTable_new \<and> length (store MinimalSymbolTable_new) + 2 < 2 ^ 32
   \<and> ''foo'' \<noteq> ''bar''
   \<and> create MinimalSymbolTable_new ''foo''
       = (Symbol 1, \<lparr>symbols = [''foo'' \<mapsto> (0, 0)], store = [''foo'']\<rparr>)
   \<and> create \<lparr>symbols = [''foo'' \<mapsto> (0, 0)], store = [''foo'']\<rparr> ''bar''
       = (Symbol 2, \<lparr>symbols = [''foo'' \<mapsto> (0, 0), ''bar'' \<mapsto> (1, 1)], store = [''foo'', ''bar'']\<rparr>)
   \<and> Symbol 1 \<noteq> Symbol 2"
proof -
  have room: "length (store MinimalSymbolTable_new) + 2 < 2 ^ 32"
    by (simp add: MinimalSymbolTable_new_def)
  have ne: "''foo'' \<noteq> ''bar''" by simp
  from create_injective [OF table_inv_new room ne create_new create_foo_bar]
  show ?thesis using table_inv_new room create_new [of "''foo''"] create_foo_bar by simp
qed

text \<open>
  Claim C6. Resolving an identifier aborts exactly when the identifier is zero or
  greater than the number of stored entries, and it never ends in a catchable error.
  An identifier that \<open>create\<close> returned resolves to its text in the table that call
  left and in every table later calls of \<open>create\<close> make of it.
\<close>

theorem subscript_fatal_iff:
  "(subscript t a = Inl Abort \<longleftrightarrow> id a = 0 \<or> unat (id a) > length (store t))
   \<and> subscript t a \<noteq> Inl (Error f n)
   \<and> (table_inv t \<and> has_room t \<and> create t s = (b, t1)
        \<longrightarrow> subscript (creates t1 ss) b = Inr (SymbolStr s))"
proof -
  have "subscript t a = Inl Abort \<longleftrightarrow> id a = 0 \<or> unat (id a) > length (store t)"
    by (simp add: subscript_def cv_size_def)
  moreover have "subscript t a \<noteq> Inl (Error f n)"
    by (simp add: subscript_def)
  moreover have "subscript (creates t1 ss) b = Inr (SymbolStr s)"
    if "table_inv t" "has_room t" "create t s = (b, t1)"
    using that by (intro subscript_creates create_resolves)
  ultimately show ?thesis by blast
qed

theorem subscript_fatal_iff_witness:
  "table_inv MinimalSymbolTable_new \<and> has_room MinimalSymbolTable_new
   \<and> create MinimalSymbolTable_new ''foo''
       = (Symbol 1, \<lparr>symbols = [''foo'' \<mapsto> (0, 0)], store = [''foo'']\<rparr>)
   \<and> subscript (creates \<lparr>symbols = [''foo'' \<mapsto> (0, 0)], store = [''foo'']\<rparr> [''bar'', ''foo'']) (Symbol 1)
       = Inr (SymbolStr ''foo'')
   \<and> subscript MinimalSymbolTable_new (Symbol 1) = Inl Abort
   \<and> subscript \<lparr>symbols = [''foo'' \<mapsto> (0, 0)], store = [''foo'']\<rparr> (Symbol 0) = Inl Abort
   \<and> subscript \<lparr>symbols = [''foo'' \<mapsto> (0, 0)], store = [''foo'']\<rparr> (Symbol 2) = Inl Abort"
  using subscript_fatal_iff [of MinimalSymbolTable_new "Symbol 1" _ _ "''foo''" "Symbol 1"
      "\<lparr>symbols = [''foo'' \<mapsto> (0, 0)], store = [''foo'']\<rparr>" "[''bar'', ''foo'']"]
    table_inv_new has_room_new create_new [of "''foo''"]
  by (simp add: subscript_def cv_size_def MinimalSymbolTable_new_def)

lemma resolve_loop_valid:
  assumes "\<forall>a \<in> set ss. valid_symbol t a"
  shows "resolve_loop t ss acc
           = Inr (acc @ map (\<lambda>a. SymbolStr (cv_get (store t) (id a - 1))) ss)"
  using assms
proof (induction ss arbitrary: acc)
  case Nil
  then show ?case by simp
next
  case (Cons a ss)
  from Cons.prems have "subscript t a = Inr (SymbolStr (cv_get (store t) (id a - 1)))"
    by (auto simp: valid_symbol_def subscript_def size_tbl_def)
  with Cons show ?case by simp
qed

text \<open>
  Claim C8. For a sequence of valid identifiers the batch \<open>resolve\<close> returns a sequence
  of the same length whose i-th element is the resolution of the i-th identifier.
\<close>

theorem resolve_order_preserving:
  assumes "\<forall>a \<in> set ss. valid_symbol t a"
  shows "\<exists>rs. resolve t ss = Inr rs \<and> length rs = length ss
            \<and> (\<forall>i < length ss. subscript t (ss ! i) = Inr (rs ! i))"
proof -
  let ?rs = "map (\<lambda>a. SymbolStr (cv_get (store t) (id a - 1))) ss"
  have "resolve t ss = Inr ?rs"
    using resolve_loop_valid [OF assms, of "[]"] by (simp add: resolve_def)
  moreover have "subscript t (ss ! i) = Inr (?rs ! i)" if "i < length ss" for i
  proof -
    from that assms have "valid_symbol t (ss ! i)" by simp
    with that show ?thesis
      by (auto simp: valid_symbol_def subscript_def size_tbl_def)
  qed
  ultimately show ?thesis by simp
qed

theorem resolve_order_preserving_witness:
  "valid_symbol \<lparr>symbols = [''foo'' \<mapsto> (0, 0), ''bar'' \<mapsto> (1, 1)], store = [''foo'', ''bar'']\<rparr>
      (Symbol 2)
   \<and> valid_symbol \<lparr>symbols = [''foo'' \<mapsto> (0, 0), ''bar'' \<mapsto> (1, 1)], store = [''foo'', ''bar'']\<rparr>
      (Symbol 1)
   \<and> resolve \<lparr>symbols = [''foo'' \<mapsto> (0, 0), ''bar'' \<mapsto> (1, 1)], store = [''foo'', ''bar'']\<rparr>
        [Symbol 2, Symbol 1, Symbol 2]
       = Inr [SymbolStr ''bar'', SymbolStr ''foo'', SymbolStr ''bar'']"
  using resolve_order_preserving [of "[Symbol 2, Symbol 1, Symbol 2]"
      "\<lparr>symbols = [''foo'' \<mapsto> (0, 0), ''bar'' \<mapsto> (1, 1)], store = [''foo'', ''bar'']\<rparr>"]
  by (simp add: valid_symbol_def size_tbl_def cv_size_def resolve_def subscript_def cv_get_def)

section \<open>Properties of attribute records\<close>

text \<open>
  Claim C4. \<open>allocBindings\<close> with capacity 0 returns the address of the evaluator's one
  shared empty record, whatever the state, and leaves the whole state as it was:
  nothing is allocated and neither counter changes.
\<close>

theorem allocBindings_zero:
  "allocBindings size_max state 0 = (Inr emptyBindingsPtr, state)"
  by (simp add: allocBindings_def)

text \<open>
  Claim C5. A capacity above the maximum makes \<open>allocBindings\<close> throw the catchable
  error that carries the requested size, and the state is unchanged: nothing is
  allocated and neither counter moves. A capacity from 1 up to the maximum succeeds
  with a fresh record of that capacity, \<open>nrAttrsets\<close> goes up by one and
  \<open>nrAttrsInAttrsets\<close> by the capacity.
\<close>

theorem allocBindings_limit:
  "(unat capacity > size_max \<longrightarrow>
      allocBindings size_max state capacity
        = (Inl (Error ''attribute set of size %d is too big'' (unat capacity)), state))
   \<and> (1 \<le> unat capacity \<and> unat capacity \<le> size_max \<longrightarrow>
      (\<exists>state'. allocBindings size_max state capacity
                   = (Inr (heapPtr (length (bindings_heap state))), state')
         \<and> nrAttrsets state' = nrAttrsets state + 1
         \<and> nrAttrsInAttrsets state' = nrAttrsInAttrsets state + capacity
         \<and> bindings_heap state' = bindings_heap state @ [Bindings_new (unat capacity)]
         \<and> deref state' (heapPtr (length (bindings_heap state)))
             = Some (Bindings_new (unat capacity))))"
proof -
  have "allocBindings size_max state capacity
          = (Inl (Error ''attribute set of size %d is too big'' (unat capacity)), state)"
    if "unat capacity > size_max"
  proof -
    from that have "capacity \<noteq> 0" by auto
    with that show ?thesis by (simp add: allocBindings_def)
  qed
  moreover have "\<exists>state'. allocBindings size_max state capacity
                   = (Inr (heapPtr (length (bindings_heap state))), state')
         \<and> nrAttrsets state' = nrAttrsets state + 1
         \<and> nrAttrsInAttrsets state' = nrAttrsInAttrsets state + capacity
         \<and> bindings_heap state' = bindings_heap state @ [Bindings_new (unat capacity)]
         \<and> deref state' (heapPtr (length (bindings_heap state)))
             = Some (Bindings_new (unat capacity))"
    if "1 \<le> unat capacity" "unat capacity \<le> size_max"
  proof -
    from that have "capacity \<noteq> 0" by auto
    with that show ?thesis
      by (simp add: allocBindings_def allocBytes_Bindings_def deref_def Let_def)
  qed
  ultimately show ?thesis by blast
qed

theorem allocBindings_limit_witness:
  "unat (4294967296 :: size_t) > 4294967295
   \<and> allocBindings 4294967295 (EvalState_new MinimalSymbolTable_new) 4294967296
       = (Inl (Error ''attribute set of size %d is too big'' 4294967296),
          EvalState_new MinimalSymbolTable_new)
   \<and> 1 \<le> unat (3 :: size_t) \<and> unat (3 :: size_t) \<le> 4294967295
   \<and> (\<exists>state'. allocBindings 4294967295 (EvalState_new MinimalSymbolTable_new) 3
                  = (Inr (heapPtr 0), state')
        \<and> nrAttrsets state' = 1 \<and> nrAttrsInAttrsets state' = 3
        \<and> bindings_heap state' = [Bindings_new 3])"
  using allocBindings_limit [of 4294967295 4294967296 "EvalState_new MinimalSymbolTable_new"]
    allocBindings_limit [of 4294967295 3 "EvalState_new MinimalSymbolTable_new"]
  by (auto simp: EvalState_new_def)

text \<open>
  Claim C7. \<open>Bindings::sort\<close> does nothing to a record of size zero. It keeps the size,
  the capacity and the attributes (as a multiset, hence as a set), and it leaves no
  attribute before one with a smaller identifier; when the symbols of the record are
  pairwise distinct, the attributes from front to back are in strictly increasing
  order of identifier.
\<close>

theorem Bindings_sort_correct:
  "(size_b b = 0 \<longrightarrow> Bindings_sort b = b)
   \<and> size_b (Bindings_sort b) = size_b b
   \<and> capacity_b (Bindings_sort b) = capacity_b b
   \<and> mset (attrs (Bindings_sort b)) = mset (attrs b)
   \<and> set (attrs (Bindings_sort b)) = set (attrs b)
   \<and> sorted_wrt (\<lambda>x y. \<not> Attr_less y x) (attrs (Bindings_sort b))
   \<and> (distinct (map name (attrs b)) \<longrightarrow> sorted_wrt Attr_less (attrs (Bindings_sort b)))"
proof -
  let ?k = "\<lambda>a. id (name a)"
  have a: "attrs (Bindings_sort b) = sort_key ?k (attrs b)"
    by (simp add: Bindings_sort_def size_b_def std_sort_def)
  have s: "sorted (map ?k (attrs (Bindings_sort b)))" by (simp add: a)
  have 1: "size_b b = 0 \<longrightarrow> Bindings_sort b = b" by (simp add: Bindings_sort_def)
  have 2: "size_b (Bindings_sort b) = size_b b" by (simp add: a size_b_def)
  have 3: "capacity_b (Bindings_sort b) = capacity_b b" by (simp add: Bindings_sort_def)
  have 4: "mset (attrs (Bindings_sort b)) = mset (attrs b)" by (simp add: a)
  have 5: "set (attrs (Bindings_sort b)) = set (attrs b)" by (simp add: a)
  have 6: "sorted_wrt (\<lambda>x y. \<not> Attr_less y x) (attrs (Bindings_sort b))"
    using s by (simp add: sorted_wrt_map Attr_less_def Symbol_less_def not_less)
  have 7: "sorted_wrt Attr_less (attrs (Bindings_sort b))" if d: "distinct (map name (attrs b))"
  proof -
    have "map ?k (attrs b) = map id (map name (attrs b))" by simp
    moreover have "inj id" by (auto intro: injI Symbol.expand)
    ultimately have "distinct (map ?k (attrs b))"
      using d by (simp only: distinct_map) (auto intro: inj_on_subset)
    then have "distinct (map ?k (attrs (Bindings_sort b)))"
      by (simp add: a distinct_map inj_on_def)
    with s have "sorted_wrt (<) (map ?k (attrs (Bindings_sort b)))"
      by (simp add: strict_sorted_iff)
    moreover have "Attr_less = (\<lambda>x y. ?k x < ?k y)"
      by (simp add: fun_eq_iff Attr_less_def Symbol_less_def)
    ultimately show ?thesis by (simp add: sorted_wrt_map)
  qed
  from 1 2 3 4 5 6 7 show ?thesis by blast
qed

theorem Bindings_sort_correct_witness:
  "size_b (Bindings_new 0) = 0 \<and> Bindings_sort (Bindings_new 0) = Bindings_new 0
   \<and> distinct (map name [Attr (Symbol 3) 0 noPos, Attr (Symbol 1) 1 noPos, Attr (Symbol 2) 2 noPos])
   \<and> attrs (Bindings_sort
        \<lparr>capacity_b = 4,
         attrs = [Attr (Symbol 3) 0 noPos, Attr (Symbol 1) 1 noPos, Attr (Symbol 2) 2 noPos]\<rparr>)
       = [Attr (Symbol 1) 1 noPos, Attr (Symbol 2) 2 noPos, Attr (Symbol 3) 0 noPos]
   \<and> sorted_wrt Attr_less
        [Attr (Symbol 1) 1 noPos, Attr (Symbol 2) 2 noPos, Attr (Symbol 3) 0 noPos]"
  using Bindings_sort_correct [of "Bindings_new 0"]
    Bindings_sort_correct [of "\<lparr>capacity_b = 4,
         attrs = [Attr (Symbol 3) 0 noPos, Attr (Symbol 1) 1 noPos, Attr (Symbol 2) 2 noPos]\<rparr>"]
  by (simp add: Bindings_new_def size_b_def Bindings_sort_def std_sort_def word_le_nat_alt
      Attr_less_def Symbol_less_def word_less_nat_alt)

text \<open>
  With pairwise distinct identifiers the result of sorting is determined: every
  arrangement of the attributes that is in strictly increasing order is the one
  \<open>std_sort\<close> computes.
\<close>

lemma std_sort_unique:
  assumes "mset ys = mset xs" "sorted_wrt Attr_less ys"
  shows "std_sort xs = ys"
proof -
  let ?k = "\<lambda>a. id (name a)"
  have "Attr_less = (\<lambda>x y. ?k x < ?k y)"
    by (simp add: fun_eq_iff Attr_less_def Symbol_less_def)
  with assms(2) have strict: "sorted_wrt (<) (map ?k ys)"
    by (simp add: sorted_wrt_map)
  then have "sorted (map ?k ys)" "distinct (map ?k ys)"
    by (simp_all add: strict_sorted_iff)
  moreover from this(2) have "inj_on ?k (set ys)"
    by (simp add: distinct_map)
  moreover from assms(1) have "set ys = set xs" by (rule mset_eq_setD)
  ultimately show ?thesis
    using assms(1) unfolding std_sort_def
    by (intro sort_key_inj_key_eq) simp_all
qed

text \<open>
  Claim C9. On a fresh table \<open>create\<close> gives ''foo'' the identifier 1, then ''bar'' the
  identifier 2, then ''foo'' the identifier 1 again with the table unchanged. A builder
  opened with capacity 2 in an evaluator holding that table, after slots for ''bar''
  and then ''foo'' and \<open>finish\<close>, yields a record of size 2 whose attributes in order
  are the one named 1 (''foo'') and the one named 2 (''bar'').
\<close>

theorem scenario_foo_bar:
  assumes "2 \<le> size_max"
  shows
    "(case create MinimalSymbolTable_new ''foo'' of (a, t1) \<Rightarrow>
      case create t1 ''bar'' of (b, t2) \<Rightarrow>
      case create t2 ''foo'' of (c, t3) \<Rightarrow>
        a = Symbol 1 \<and> b = Symbol 2 \<and> c = Symbol 1 \<and> t3 = t2 \<and>
        (case buildBindings size_max (EvalState_new t3) 2 of
           (Inr bb, st1) \<Rightarrow>
             (case alloc_name bb st1 ''bar'' noPos of
                (Inr v1, st2) \<Rightarrow>
                  (case alloc_name bb st2 ''foo'' noPos of
                     (Inr v2, st3) \<Rightarrow>
                       (case finish bb st3 of
                          (Inr p, st4) \<Rightarrow>
                            (case deref st4 p of
                               Some r \<Rightarrow>
                                 size_b r = 2 \<and>
                                 attrs r = [Attr (Symbol 1) v2 noPos, Attr (Symbol 2) v1 noPos] \<and>
                                 resolve (state_symbols st4) (map name (attrs r))
                                   = Inr [SymbolStr ''foo'', SymbolStr ''bar'']
                             | None \<Rightarrow> False)
                        | (Inl e, st4) \<Rightarrow> False)
                   | (Inl e, st3) \<Rightarrow> False)
              | (Inl e, st2) \<Rightarrow> False)
         | (Inl e, st1) \<Rightarrow> False))"
  using assms
  by (simp add: create_def insert_sym_def cv_add_def emplace_def MinimalSymbolTable_new_def
      buildBindings_def allocBindings_def allocBytes_Bindings_def EvalState_new_def Let_def
      alloc_name_def alloc_def allocValue_def deref_def push_back_def size_b_def Bindings_new_def
      assign_def finish_def Bindings_sort_def std_sort_def resolve_def subscript_def cv_size_def
      cv_get_def word_le_nat_alt)

theorem scenario_foo_bar_witness:
  "(2::nat) \<le> 4294967295 \<and>
    (case create MinimalSymbolTable_new ''foo'' of (a, t1) \<Rightarrow>
      case create t1 ''bar'' of (b, t2) \<Rightarrow>
      case create t2 ''foo'' of (c, t3) \<Rightarrow>
        a = Symbol 1 \<and> b = Symbol 2 \<and> c = Symbol 1 \<and> t3 = t2 \<and>
        (case buildBindings 4294967295 (EvalState_new t3) 2 of
           (Inr bb, st1) \<Rightarrow>
             (case alloc_name bb st1 ''bar'' noPos of
                (Inr v1, st2) \<Rightarrow>
                  (case alloc_name bb st2 ''foo'' noPos of
                     (Inr v2, st3) \<Rightarrow>
                       (case finish bb st3 of
                          (Inr p, st4) \<Rightarrow>
                            (case deref st4 p of
                               Some r \<Rightarrow>
                                 size_b r = 2 \<and>
                                 attrs r = [Attr (Symbol 1) v2 noPos, Attr (Symbol 2) v1 noPos] \<and>
                                 resolve (state_symbols st4) (map name (attrs r))
                                   = Inr [SymbolStr ''foo'', SymbolStr ''bar'']
                             | None \<Rightarrow> False)
                        | (Inl e, st4) \<Rightarrow> False)
                   | (Inl e, st3) \<Rightarrow> False)
              | (Inl e, st2) \<Rightarrow> False)
         | (Inl e, st1) \<Rightarrow> False))"
  using scenario_foo_bar [of 4294967295] by simp

section \<open>The common symbols\<close>

text \<open>
  What the constructor of \<open>SymbolTable\<close> leaves: the texts of the initialiser list in the
  store, in order, each member numbered by its position, and a well-formed table, since
  the texts are pairwise distinct.
\<close>

lemma insert_sym_eq:
  "insert_sym t s =
     (Symbol (of_nat (length (store t)) + 1),
      t\<lparr>symbols := emplace (symbols t) s (length (store t), of_nat (length (store t))),
        store := store t @ [s]\<rparr>)"
  by (simp add: insert_sym_def cv_add_def)

lemma create_absent: "symbols t s = None \<Longrightarrow> create t s = insert_sym t s"
  by (simp add: create_def)

lemma table_inv_members [simp]: "table_inv (t\<lparr>members := ms\<rparr>) = table_inv t"
  by (simp add: table_inv_def)

lemma init_members_store:
  "store (init_members t inits) = store t @ map snd inits"
  by (induction t inits rule: init_members.induct) (simp_all add: insert_sym_eq)

lemma init_members_members:
  "members (init_members t inits)
     = members t @ map2 (\<lambda>m i. (m, Symbol (of_nat i + 1))) (map fst inits)
                     [length (store t) ..< length (store t) + length inits]"
proof (induction t inits rule: init_members.induct)
  case (1 t)
  then show ?case by simp
next
  case (2 t m s rest)
  have "[length (store t) ..< length (store t) + Suc (length rest)]
          = length (store t) # [Suc (length (store t)) ..< length (store t) + Suc (length rest)]"
    by (rule upt_conv_Cons) simp
  with 2 [OF insert_sym_eq [symmetric]] show ?case
    by (simp add: insert_sym_eq del: upt_Suc)
qed

lemma init_members_inv:
  assumes "table_inv t" "distinct (map snd inits)" "set (map snd inits) \<inter> set (store t) = {}"
    and "length (store t) + length inits < 2 ^ 32"
  shows "table_inv (init_members t inits)"
  using assms
proof (induction t inits rule: init_members.induct)
  case (1 t)
  then show ?case by simp
next
  case (2 t m s rest)
  from "2.prems" have absent: "symbols t s = None"
    by (simp add: inv_absent)
  from "2.prems" have room: "has_room t" by (simp add: has_room_def)
  let ?t' = "snd (insert_sym t s)"
  from absent have c: "create t s = insert_sym t s" by (rule create_absent)
  from "2.prems"(1) room have inv': "table_inv ?t'"
    using create_inv [of t s] by (simp add: c)
  have st: "store ?t' = store t @ [s]" by (simp add: insert_sym_eq)
  have "table_inv (init_members (?t'\<lparr>members := members ?t' @ [(m, fst (insert_sym t s))]\<rparr>) rest)"
  proof (rule "2.IH")
    show "(fst (insert_sym t s), ?t') = insert_sym t s" by simp
    show "table_inv (?t'\<lparr>members := members ?t' @ [(m, fst (insert_sym t s))]\<rparr>)"
      using inv' by simp
    show "distinct (map snd rest)" using "2.prems" by simp
    show "set (map snd rest) \<inter> set (store (?t'\<lparr>members := members ?t' @ [(m, fst (insert_sym t s))]\<rparr>)) = {}"
      using "2.prems" st by auto
    show "length (store (?t'\<lparr>members := members ?t' @ [(m, fst (insert_sym t s))]\<rparr>)) + length rest < 2 ^ 32"
      using "2.prems" st by simp
  qed
  then show ?case by (simp add: split_beta)
qed

lemma distinct_member_texts: "distinct (map snd member_inits)"
  by (simp add: member_inits_def)


lemma SymbolTable_new_inv: "table_inv SymbolTable_new"
  unfolding SymbolTable_new_def
  by (rule init_members_inv)
     (simp_all add: table_inv_def distinct_member_texts, simp add: member_inits_def)

lemma SymbolTable_new_store: "store SymbolTable_new = map snd member_inits"
  by (simp add: SymbolTable_new_def init_members_store)

lemma SymbolTable_new_members:
  "members SymbolTable_new
     = map2 (\<lambda>m i. (m, Symbol (of_nat i + 1))) (map fst member_inits) [0 ..< length member_inits]"
  by (simp add: SymbolTable_new_def init_members_members)

lemma length_member_inits: "length member_inits = 75"
  by (simp add: member_inits_def)

lemma upt_75: "[0..<75] = [0,1,2,3,4,5,6,7,8,9,10,11,12,13,14,15,16,17,18,19,20,21,22,23,24,25,26,27,28,29,30,31,32,33,34,35,36,37,38,39,40,41,42,43,44,45,46,47,48,49,50,51,52,53,54,55,56,57,58,59,60,61,62,63,64,65,66,67,68,69,70,71,72,73,74]"
  by code_simp

lemma SymbolTable_new_lookup:
  assumes "i < 75"
  shows "symbols SymbolTable_new (map snd member_inits ! i) = Some (i, of_nat i)"
  using SymbolTable_new_inv assms
  by (simp add: table_inv_def SymbolTable_new_store length_member_inits)

lemma text_37: "map snd member_inits ! 37 = ''logicAnd''"
  by (simp add: member_inits_def)

lemma text_35: "map snd member_inits ! 35 = ''logicOr''"
  by (simp add: member_inits_def)

text \<open>
  Claim C10. In the freshly constructed \<open>SymbolTable\<close> the member \<open>logicAnd\<close> is the
  symbol 36, which resolves to ''logicOr'', and the member \<open>logicOr\<close> is the symbol 38,
  which resolves to ''logicAnd''. So \<open>create\<close> on that table returns the member
  \<open>logicOr\<close> for ''logicAnd'' and the member \<open>logicAnd\<close> for ''logicOr'', and adds
  nothing.
\<close>

theorem SymbolTable_logic_swapped:
  "member SymbolTable_new ''logicAnd'' = Some (Symbol 36)
   \<and> member SymbolTable_new ''logicOr'' = Some (Symbol 38)
   \<and> subscript SymbolTable_new (Symbol 36) = Inr (SymbolStr ''logicOr'')
   \<and> subscript SymbolTable_new (Symbol 38) = Inr (SymbolStr ''logicAnd'')
   \<and> create SymbolTable_new ''logicAnd'' = (Symbol 38, SymbolTable_new)
   \<and> create SymbolTable_new ''logicOr'' = (Symbol 36, SymbolTable_new)"
proof -
  have m1: "member SymbolTable_new ''logicAnd'' = Some (Symbol 36)"
    unfolding member_def SymbolTable_new_members length_member_inits
    by (simp add: member_inits_def upt_75)
  have m2: "member SymbolTable_new ''logicOr'' = Some (Symbol 38)"
    unfolding member_def SymbolTable_new_members length_member_inits
    by (simp add: member_inits_def upt_75)
  have r1: "subscript SymbolTable_new (Symbol 36) = Inr (SymbolStr ''logicOr'')"
    using text_35
    by (simp add: subscript_def cv_size_def cv_get_def SymbolTable_new_store length_member_inits)
  have r2: "subscript SymbolTable_new (Symbol 38) = Inr (SymbolStr ''logicAnd'')"
    using text_37
    by (simp add: subscript_def cv_size_def cv_get_def SymbolTable_new_store length_member_inits)
  have "symbols SymbolTable_new ''logicAnd'' = Some (37, 37)"
    using SymbolTable_new_lookup [of 37] by (simp add: text_37)
  then have c1: "create SymbolTable_new ''logicAnd'' = (Symbol 38, SymbolTable_new)"
    by (simp add: create_found)
  have "symbols SymbolTable_new ''logicOr'' = Some (35, 35)"
    using SymbolTable_new_lookup [of 35] by (simp add: text_35)
  then have c2: "create SymbolTable_new ''logicOr'' = (Symbol 36, SymbolTable_new)"
    by (simp add: create_found)
  from m1 m2 r1 r2 c1 c2 show ?thesis by simp
qed

end
